theory Spec2Isabelle
  imports Complex_Main
begin

section \<open>Data model\<close>

text \<open>
  The in-memory table \<^verbatim>\<open>items\<close> of \<^verbatim>\<open>app/main.py\<close> is a list of category
  dictionaries, each with the keys \<^verbatim>\<open>category\<close> and \<^verbatim>\<open>items\<close>; an item is a
  dictionary with the keys \<^verbatim>\<open>name\<close>, \<^verbatim>\<open>count\<close>, \<^verbatim>\<open>co2\<close> and \<^verbatim>\<open>base_co2\<close>.
  Counts are Python integers (\<open>int\<close>); CO2 quantities are numbers, idealised as
  \<open>real\<close>. Every key the handlers index is a field of the record, so the
  defaults of \<^verbatim>\<open>item.get('co2', 0)\<close> are never taken.
\<close>

record item =
  name :: string
  count :: int
  co2 :: real
  base_co2 :: real

record category =
  category :: string
  items :: "item list"

section \<open>The collaborators as parameters\<close>

text \<open>
  The collaborators that \<^verbatim>\<open>app/main.py\<close> imports are not part of the file:
  the class \<^verbatim>\<open>Co2\<close> (\<^verbatim>\<open>mongo/mongo.py\<close>) and the class \<^verbatim>\<open>AppUtils\<close>
  (\<^verbatim>\<open>utilities/utils.py\<close>). The handlers take them as parameters: a record of
  the methods they call. A method that writes to the document store may raise,
  so it returns \<open>exn + 's\<close> over the store state \<open>'s\<close>; a write that raises
  leaves the store as it was before that call. Reads and the pure helpers are
  total functions.
\<close>

text \<open>
  An entry of \<^verbatim>\<open>exc_items\<close> (lines 162-166), and the dictionary itself, from
  category to the list of its entries, in insertion order.
\<close>

record exchanged =
  e_name :: string
  e_count :: int
  e_co2 :: real

type_synonym exc_items = "(string \<times> exchanged list) list"

text \<open>
  Modelled from the spec: the shapes of the data that the missing collaborators
  take and return (section 3). The equivalents are a dictionary from mode to
  value; a Session Record holds \<^verbatim>\<open>total_co2\<close>, its equivalents and the exchanged
  items; a persisted item record holds name, count and co2, grouped by
  category; the cumulative totals are what the fold over the Session Records
  yields.
\<close>

type_synonym equivalents = "string \<rightharpoonup> real"

record session =
  s_total_co2 :: real
  s_equivalents :: equivalents
  s_exchanged_items :: exc_items

record pitem =
  p_name :: string
  p_count :: int
  p_co2 :: real

record pcategory =
  p_category :: string
  p_items :: "pitem list"

record totals =
  t_co2 :: real
  t_equivalents :: equivalents

text \<open>
  The exceptions: the \<^verbatim>\<open>NameError\<close> of an unbound global, with the name, and an
  exception raised by a write to the document store, with its message.
  \<open>str\<close> is the text that \<^verbatim>\<open>print(f"Error in /reset: {e}")\<close> formats.
\<close>

datatype exn = NameError string | StoreError string

fun str :: "exn \<Rightarrow> string" where
  "str (NameError v) = ''name '' @ [CHR 0x27] @ v @ [CHR 0x27] @ '' is not defined''"
| "str (StoreError msg) = msg"

record 's Co2 =
  count_documents :: "'s \<Rightarrow> nat"
  insert_items :: "'s \<Rightarrow> category list \<Rightarrow> exn + 's"
  update_item :: "'s \<Rightarrow> string \<Rightarrow> string \<Rightarrow> int \<Rightarrow> real \<Rightarrow> exn + 's"
  insert_session :: "'s \<Rightarrow> real \<Rightarrow> equivalents \<Rightarrow> exc_items \<Rightarrow> exn + 's"
  get_all_sessions :: "'s \<Rightarrow> session list"
  get_updated_items :: "'s \<Rightarrow> pcategory list"
  log_out :: "'s \<Rightarrow> string option \<Rightarrow> int \<Rightarrow> pitem list \<Rightarrow> totals \<Rightarrow> exn + 's"
  reset_counts :: "'s \<Rightarrow> category list \<Rightarrow> exn + 's"
  clear_sessions :: "'s \<Rightarrow> exn + 's"

record AppUtils =
  calculate_equivalents :: "real \<Rightarrow> equivalents"
  calculate_total :: "session list \<Rightarrow> totals \<times> int"
  rearrange_updated_items :: "pcategory list \<Rightarrow> pitem list"
  sort_updated_items :: "pitem list \<Rightarrow> pitem list"

text \<open>
  Of a request the handlers read the cookies only; the form fields
  \<^verbatim>\<open>action\<close> and \<^verbatim>\<open>item_name\<close> are arguments of their own.
\<close>

record request =
  cookies :: "string \<rightharpoonup> string"

datatype page_context =
  DemoContext "category list" equivalents real
| MainContext "category list" equivalents real totals int "pitem list" "string option"

text \<open>
  A response is the rendered template with its context, or a redirect with its
  target and status; the last component lists the cookies the response deletes.
\<close>

datatype response =
  TemplateResponse string page_context "string list"
| RedirectResponse string nat "string list"

text \<open>
  The module-level state: the table \<^verbatim>\<open>items\<close>, the global \<^verbatim>\<open>total_co2\<close>
  (\<open>None\<close> while the name is not yet bound), the state of the document store
  behind the object \<^verbatim>\<open>mongo\<close>, and the lines printed so far.
\<close>

record 's state =
  g_items :: "category list"
  g_total_co2 :: "real option"
  db :: 's
  stdout :: "string list"

section \<open>The route handlers\<close>

subsection \<open>GET / (lines 35-54)\<close>

definition demo :: "AppUtils \<Rightarrow> 's state \<Rightarrow> response \<times> 's state" where
  "demo u st =
     (let total_co2 = sum_list (concat (map (\<lambda>c. map co2 (items c)) (g_items st)));
          equivalents = calculate_equivalents u total_co2
      in (TemplateResponse ''demo.html'' (DemoContext (g_items st) equivalents total_co2) [], st))"

subsection \<open>POST / (lines 57-73)\<close>

fun update_items_demo :: "string \<Rightarrow> string \<Rightarrow> item list \<Rightarrow> item list" where
  "update_items_demo action item_name [] = []"
| "update_items_demo action item_name (item # rest) =
     (if name item = item_name then
        (let item1 = (if action = ''increment'' then item\<lparr>count := count item + 1\<rparr>
                      else if action = ''decrement'' then item\<lparr>count := max 0 (count item - 1)\<rparr>
                      else item)
         in item1\<lparr>co2 := of_int (count item1) * base_co2 item1\<rparr>) # rest
      else item # update_items_demo action item_name rest)"

fun update_categories_demo :: "string \<Rightarrow> string \<Rightarrow> category list \<Rightarrow> category list" where
  "update_categories_demo action item_name [] = []"
| "update_categories_demo action item_name (c # cs) =
     c\<lparr>items := update_items_demo action item_name (items c)\<rparr>
       # update_categories_demo action item_name cs"

definition update_count_demo :: "string \<Rightarrow> string \<Rightarrow> 's state \<Rightarrow> response \<times> 's state" where
  "update_count_demo action item_name st =
     (RedirectResponse ''/'' 303 [],
      st\<lparr>g_items := update_categories_demo action item_name (g_items st)\<rparr>)"

subsection \<open>POST /reset (lines 76-84)\<close>

fun reset_items_demo :: "item list \<Rightarrow> item list" where
  "reset_items_demo [] = []"
| "reset_items_demo (item # rest) = item\<lparr>count := 0, co2 := 0\<rparr> # reset_items_demo rest"

fun reset_categories_demo :: "category list \<Rightarrow> category list" where
  "reset_categories_demo [] = []"
| "reset_categories_demo (c # cs) =
     c\<lparr>items := reset_items_demo (items c)\<rparr> # reset_categories_demo cs"

definition renew_demo :: "'s state \<Rightarrow> response \<times> 's state" where
  "renew_demo st =
     (RedirectResponse ''/'' 303 [], st\<lparr>g_items := reset_categories_demo (g_items st)\<rparr>)"

subsection \<open>POST /main (lines 127-143)\<close>

fun update_items_main :: "string \<Rightarrow> string \<Rightarrow> item list \<Rightarrow> item list" where
  "update_items_main action item_name [] = []"
| "update_items_main action item_name (item # rest) =
     (if name item = item_name then
        (let item1 = (if action = ''increment'' then item\<lparr>count := count item + 1\<rparr>
                      else if action = ''decrement'' then item\<lparr>count := max 0 (count item - 1)\<rparr>
                      else item)
         in item1\<lparr>co2 := of_int (count item1) * base_co2 item1\<rparr>) # rest
      else item # update_items_main action item_name rest)"

fun update_categories_main :: "string \<Rightarrow> string \<Rightarrow> category list \<Rightarrow> category list" where
  "update_categories_main action item_name [] = []"
| "update_categories_main action item_name (c # cs) =
     c\<lparr>items := update_items_main action item_name (items c)\<rparr>
       # update_categories_main action item_name cs"

definition update_count_main :: "string \<Rightarrow> string \<Rightarrow> 's state \<Rightarrow> response \<times> 's state" where
  "update_count_main action item_name st =
     (RedirectResponse ''/main'' 303 [],
      st\<lparr>g_items := update_categories_main action item_name (g_items st)\<rparr>)"

subsection \<open>GET /main (lines 87-124)\<close>

text \<open>
  The handler declares \<^verbatim>\<open>global total_co2\<close> and assigns the sum of all
  \<^verbatim>\<open>co2\<close> values to it. \<^verbatim>\<open>if welcome_message:\<close> holds for a cookie that is
  present and not the empty string.
\<close>

definition main :: "'s Co2 \<Rightarrow> AppUtils \<Rightarrow> request \<Rightarrow> 's state \<Rightarrow> response \<times> 's state" where
  "main m u request st =
     (let user_name = cookies request ''user_name'';
          welcome_message = cookies request ''welcome_message'';
          total_co2 = sum_list (concat (map (\<lambda>c. map co2 (items c)) (g_items st)));
          st1 = st\<lparr>g_total_co2 := Some total_co2\<rparr>;
          equivalents = calculate_equivalents u total_co2;
          (totals, session_count) = calculate_total u (get_all_sessions m (db st1));
          updated_items = get_updated_items m (db st1);
          rearranged_items = rearrange_updated_items u updated_items;
          sorted_items = sort_updated_items u rearranged_items;
          context = MainContext (g_items st1) equivalents total_co2 totals session_count
                      sorted_items welcome_message
      in (TemplateResponse ''main.html'' context
            (if welcome_message \<noteq> None \<and> welcome_message \<noteq> Some [] then [''welcome_message'']
             else []),
          st1))"

subsection \<open>POST /main/reset (lines 146-182)\<close>

text \<open>
  The first loop of the \<^verbatim>\<open>try\<close> block. It threads the store and the dictionary
  \<^verbatim>\<open>exc_items\<close> (an association list in insertion order); a raising
  \<^verbatim>\<open>mongo.update_item\<close> ends it with the store as the earlier calls left it.
\<close>

definition exc_append :: "string \<Rightarrow> exchanged \<Rightarrow> exc_items \<Rightarrow> exc_items" where
  "exc_append c e exc_items =
     (let exc1 = (if c \<notin> set (map fst exc_items) then exc_items @ [(c, [])] else exc_items)
      in map (\<lambda>(k, v). if k = c then (k, v @ [e]) else (k, v)) exc1)"

fun renew_items :: "'s Co2 \<Rightarrow> string \<Rightarrow> item list \<Rightarrow> 's \<Rightarrow> exc_items \<Rightarrow> 's \<times> (exn + exc_items)" where
  "renew_items m c [] s exc_items = (s, Inr exc_items)"
| "renew_items m c (item # rest) s exc_items =
     (if count item > 0 \<or> co2 item > 0 then
        (case update_item m s c (name item) (count item) (co2 item) of
           Inl e \<Rightarrow> (s, Inl e)
         | Inr s1 \<Rightarrow>
             renew_items m c rest s1
               (exc_append c \<lparr>e_name = name item, e_count = count item, e_co2 = co2 item\<rparr> exc_items))
      else renew_items m c rest s exc_items)"

fun renew_categories :: "'s Co2 \<Rightarrow> category list \<Rightarrow> 's \<Rightarrow> exc_items \<Rightarrow> 's \<times> (exn + exc_items)" where
  "renew_categories m [] s exc_items = (s, Inr exc_items)"
| "renew_categories m (c # cs) s exc_items =
     (case renew_items m (category c) (items c) s exc_items of
        (s1, Inl e) \<Rightarrow> (s1, Inl e)
      | (s1, Inr exc1) \<Rightarrow> renew_categories m cs s1 exc1)"

fun reset_items_main :: "item list \<Rightarrow> item list" where
  "reset_items_main [] = []"
| "reset_items_main (item # rest) = item\<lparr>count := 0, co2 := 0\<rparr> # reset_items_main rest"

fun reset_categories_main :: "category list \<Rightarrow> category list" where
  "reset_categories_main [] = []"
| "reset_categories_main (c # cs) =
     c\<lparr>items := reset_items_main (items c)\<rparr> # reset_categories_main cs"

text \<open>
  The body of the \<^verbatim>\<open>try\<close> block: the item loop, the read of the global
  \<^verbatim>\<open>total_co2\<close> (a \<^verbatim>\<open>NameError\<close> while it is unbound), the session insert and
  the reset of the table.
\<close>

definition renew_try :: "'s Co2 \<Rightarrow> AppUtils \<Rightarrow> 's state \<Rightarrow> 's state \<times> (exn + unit)" where
  "renew_try m u st =
     (case renew_categories m (g_items st) (db st) [] of
        (s1, Inl e) \<Rightarrow> (st\<lparr>db := s1\<rparr>, Inl e)
      | (s1, Inr exc_items) \<Rightarrow>
          (case g_total_co2 st of
             None \<Rightarrow> (st\<lparr>db := s1\<rparr>, Inl (NameError ''total_co2''))
           | Some total_co2 \<Rightarrow>
               (if total_co2 > 0 then
                  (case insert_session m s1 total_co2 (calculate_equivalents u total_co2) exc_items of
                     Inl e \<Rightarrow> (st\<lparr>db := s1\<rparr>, Inl e)
                   | Inr s2 \<Rightarrow>
                       (st\<lparr>db := s2, g_items := reset_categories_main (g_items st)\<rparr>, Inr ()))
                else (st\<lparr>db := s1, g_items := reset_categories_main (g_items st)\<rparr>, Inr ()))))"

definition renew_main :: "'s Co2 \<Rightarrow> AppUtils \<Rightarrow> 's state \<Rightarrow> (exn + response) \<times> 's state" where
  "renew_main m u st =
     (case renew_try m u st of
        (st1, Inl e) \<Rightarrow> (Inl e, st1\<lparr>stdout := stdout st1 @ [''Error in /reset: '' @ str e]\<rparr>)
      | (st1, Inr _) \<Rightarrow> (Inr (RedirectResponse ''/main'' 303 []), st1))"

subsection \<open>POST /main/logout (lines 185-205)\<close>

definition logout :: "'s Co2 \<Rightarrow> AppUtils \<Rightarrow> request \<Rightarrow> 's state \<Rightarrow> (exn + response) \<times> 's state" where
  "logout m u request st =
     (let user_name = cookies request ''user_name'';
          (totals, session_count) = calculate_total u (get_all_sessions m (db st))
      in if session_count > 0 then
           (let updated_items = get_updated_items m (db st);
                rearranged_items = rearrange_updated_items u updated_items;
                sorted_items = sort_updated_items u rearranged_items
            in case log_out m (db st) user_name session_count sorted_items totals of
                 Inl e \<Rightarrow> (Inl e, st)
               | Inr s1 \<Rightarrow>
                   (case reset_counts m s1 (g_items st) of
                      Inl e \<Rightarrow> (Inl e, st\<lparr>db := s1\<rparr>)
                    | Inr s2 \<Rightarrow>
                        (case clear_sessions m s2 of
                           Inl e \<Rightarrow> (Inl e, st\<lparr>db := s2\<rparr>)
                         | Inr s3 \<Rightarrow>
                             (Inr (RedirectResponse ''/'' 303 [''user_name'']), st\<lparr>db := s3\<rparr>))))
         else (Inr (RedirectResponse ''/'' 303 [''user_name'']), st))"

subsection \<open>GET /main/reset_DBS and GET /main/clear_SOS (lines 209-218)\<close>

definition reset_count :: "'s Co2 \<Rightarrow> 's state \<Rightarrow> (exn + response) \<times> 's state" where
  "reset_count m st =
     (case reset_counts m (db st) (g_items st) of
        Inl e \<Rightarrow> (Inl e, st)
      | Inr s1 \<Rightarrow> (Inr (RedirectResponse ''/main'' 303 []), st\<lparr>db := s1\<rparr>))"

definition clear_sessions_route :: "'s Co2 \<Rightarrow> 's state \<Rightarrow> (exn + response) \<times> 's state" where
  "clear_sessions_route m st =
     (case clear_sessions m (db st) of
        Inl e \<Rightarrow> (Inl e, st)
      | Inr s1 \<Rightarrow> (Inr (RedirectResponse ''/main'' 303 []), st\<lparr>db := s1\<rparr>))"

subsection \<open>The route table\<close>

datatype http_request =
  GET_demo
| POST_demo string string
| POST_reset
| GET_main request
| POST_main string string
| POST_main_reset
| POST_main_logout request
| GET_main_reset_DBS
| GET_main_clear_SOS

fun handle :: "'s Co2 \<Rightarrow> AppUtils \<Rightarrow> http_request \<Rightarrow> 's state \<Rightarrow> (exn + response) \<times> 's state" where
  "handle m u GET_demo st = (let (r, st1) = demo u st in (Inr r, st1))"
| "handle m u (POST_demo action item_name) st =
     (let (r, st1) = update_count_demo action item_name st in (Inr r, st1))"
| "handle m u POST_reset st = (let (r, st1) = renew_demo st in (Inr r, st1))"
| "handle m u (GET_main request) st = (let (r, st1) = main m u request st in (Inr r, st1))"
| "handle m u (POST_main action item_name) st =
     (let (r, st1) = update_count_main action item_name st in (Inr r, st1))"
| "handle m u POST_main_reset st = renew_main m u st"
| "handle m u (POST_main_logout request) st = logout m u request st"
| "handle m u GET_main_reset_DBS st = reset_count m st"
| "handle m u GET_main_clear_SOS st = clear_sessions_route m st"

text \<open>
  The server keeps the module state between requests, whether a handler
  returned or raised.
\<close>

fun serve :: "'s Co2 \<Rightarrow> AppUtils \<Rightarrow> http_request list \<Rightarrow> 's state \<Rightarrow> 's state" where
  "serve m u [] st = st"
| "serve m u (r # rs) st = serve m u rs (snd (handle m u r st))"

text \<open>
  Module start (lines 23-31): the table is loaded, the store is seeded when its
  item collection is empty, and no statement binds \<^verbatim>\<open>total_co2\<close>.
\<close>

definition startup :: "'s Co2 \<Rightarrow> category list \<Rightarrow> 's \<Rightarrow> exn + 's state" where
  "startup m items0 s0 =
     (if count_documents m s0 = 0 then
        (case insert_items m s0 items0 of
           Inl e \<Rightarrow> Inl e
         | Inr s1 \<Rightarrow> Inr \<lparr>g_items = items0, g_total_co2 = None, db = s1, stdout = []\<rparr>)
      else Inr \<lparr>g_items = items0, g_total_co2 = None, db = s0, stdout = []\<rparr>)"

section \<open>The collaborators, from the specification\<close>

text \<open>
  Modelled from the spec: the document store behind \<^verbatim>\<open>mongo.mongo.Co2\<close>, which
  is not part of \<^verbatim>\<open>app/main.py\<close>. It holds the persisted item records grouped
  by category, the Session Ledger and the log of Logout Archive Entries.
\<close>

record log_entry =
  l_user_name :: "string option"
  l_sessions :: int
  l_sorted_items :: "pitem list"
  l_total :: totals

record store =
  co2_docs :: "pcategory list"
  sessions :: "session list"
  logs :: "log_entry list"

text \<open>
  Modelled from the spec: \<^verbatim>\<open>insert_items(categories)\<close>, missing from the source;
  it seeds the document store with the catalog.
\<close>

definition mongo_insert_items :: "store \<Rightarrow> category list \<Rightarrow> store" where
  "mongo_insert_items s cs =
     s\<lparr>co2_docs := co2_docs s @
        map (\<lambda>c. \<lparr>p_category = category c,
                    p_items = map (\<lambda>i. \<lparr>p_name = name i, p_count = count i, p_co2 = co2 i\<rparr>) (items c)\<rparr>) cs\<rparr>"

text \<open>
  Modelled from the spec: \<^verbatim>\<open>update_item(category, name, count, co2)\<close>, missing
  from the source; it persists the item's current count and co2 into the
  document store's item records.
\<close>

definition mongo_update_item :: "store \<Rightarrow> string \<Rightarrow> string \<Rightarrow> int \<Rightarrow> real \<Rightarrow> store" where
  "mongo_update_item s c n k v =
     s\<lparr>co2_docs :=
        map (\<lambda>d. if p_category d = c
                  then d\<lparr>p_items := map (\<lambda>i. if p_name i = n then i\<lparr>p_count := k, p_co2 := v\<rparr> else i)
                                        (p_items d)\<rparr>
                  else d) (co2_docs s)\<rparr>"

text \<open>
  Modelled from the spec: \<^verbatim>\<open>insert_session(total_co2, equivalents, exchanged_items)\<close>,
  missing from the source; it writes one new Session Record.
\<close>

definition mongo_insert_session :: "store \<Rightarrow> real \<Rightarrow> equivalents \<Rightarrow> exc_items \<Rightarrow> store" where
  "mongo_insert_session s t eq exc =
     s\<lparr>sessions := sessions s @
        [\<lparr>s_total_co2 = t, s_equivalents = eq, s_exchanged_items = exc\<rparr>]\<rparr>"

text \<open>
  Modelled from the spec: \<^verbatim>\<open>log_out(user_name, sessions, sorted_items, total)\<close>,
  missing from the source; it writes one Logout Archive Entry to an append-only log.
\<close>

definition mongo_log_out :: "store \<Rightarrow> string option \<Rightarrow> int \<Rightarrow> pitem list \<Rightarrow> totals \<Rightarrow> store" where
  "mongo_log_out s user n sorted_items t =
     s\<lparr>logs := logs s @
        [\<lparr>l_user_name = user, l_sessions = n, l_sorted_items = sorted_items, l_total = t\<rparr>]\<rparr>"

text \<open>
  Modelled from the spec: \<^verbatim>\<open>reset_counts(categories)\<close>, missing from the source;
  it resets the persisted item counts to 0.
\<close>

definition mongo_reset_counts :: "store \<Rightarrow> category list \<Rightarrow> store" where
  "mongo_reset_counts s cs =
     s\<lparr>co2_docs := map (\<lambda>d. d\<lparr>p_items := map (\<lambda>i. i\<lparr>p_count := 0\<rparr>) (p_items d)\<rparr>) (co2_docs s)\<rparr>"

text \<open>
  Modelled from the spec: \<^verbatim>\<open>clear_sessions()\<close>, missing from the source; it
  deletes all Session Records.
\<close>

definition mongo_clear_sessions :: "store \<Rightarrow> store" where
  "mongo_clear_sessions s = s\<lparr>sessions := []\<rparr>"

text \<open>
  Modelled from the spec: the object \<^verbatim>\<open>mongo\<close> of class \<^verbatim>\<open>Co2\<close>, missing from
  the source, over a store whose writes all succeed; the reads return the
  Session Ledger and the persisted item records.
\<close>

definition mongo_spec :: "store Co2" where
  "mongo_spec =
     \<lparr>count_documents = (\<lambda>s. length (co2_docs s)),
      insert_items = (\<lambda>s cs. Inr (mongo_insert_items s cs)),
      update_item = (\<lambda>s c n k v. Inr (mongo_update_item s c n k v)),
      insert_session = (\<lambda>s t eq exc. Inr (mongo_insert_session s t eq exc)),
      get_all_sessions = sessions,
      get_updated_items = co2_docs,
      log_out = (\<lambda>s user n sorted_items t. Inr (mongo_log_out s user n sorted_items t)),
      reset_counts = (\<lambda>s cs. Inr (mongo_reset_counts s cs)),
      clear_sessions = (\<lambda>s. Inr (mongo_clear_sessions s))\<rparr>"

text \<open>
  Modelled from the spec: \<^verbatim>\<open>AppUtils.calculate_total\<close>, missing from the source;
  it folds the Session Records into cumulative totals (the sum of
  \<^verbatim>\<open>total_co2\<close> and, mode by mode, of the equivalents) and a session count.
\<close>

definition add_equivalents :: "equivalents \<Rightarrow> equivalents \<Rightarrow> equivalents" where
  "add_equivalents a b =
     (\<lambda>k. case a k of
            None \<Rightarrow> b k
          | Some x \<Rightarrow> (case b k of None \<Rightarrow> Some x | Some y \<Rightarrow> Some (x + y)))"

definition spec_calculate_total :: "session list \<Rightarrow> totals \<times> int" where
  "spec_calculate_total ss =
     (foldl (\<lambda>t s. \<lparr>t_co2 = t_co2 t + s_total_co2 s,
                     t_equivalents = add_equivalents (t_equivalents t) (s_equivalents s)\<rparr>)
            \<lparr>t_co2 = 0, t_equivalents = Map.empty\<rparr> ss,
      int (length ss))"

text \<open>
  Modelled from the spec: \<^verbatim>\<open>AppUtils.rearrange_updated_items\<close> and
  \<^verbatim>\<open>AppUtils.sort_updated_items\<close>, missing from the source; the first flattens
  the per-category lists into one sequence, the second sorts it by count,
  descending and stable.
\<close>

definition spec_rearrange_updated_items :: "pcategory list \<Rightarrow> pitem list" where
  "spec_rearrange_updated_items ds = concat (map p_items ds)"

definition spec_sort_updated_items :: "pitem list \<Rightarrow> pitem list" where
  "spec_sort_updated_items xs = sort_key (\<lambda>i. - p_count i) xs"

text \<open>
  Modelled from the spec: the class \<^verbatim>\<open>AppUtils\<close>, missing from the source. The
  conversion table of the Equivalence Calculator is not given, so the
  calculator is a parameter.
\<close>

definition utils_spec :: "(real \<Rightarrow> equivalents) \<Rightarrow> AppUtils" where
  "utils_spec calc =
     \<lparr>calculate_equivalents = calc,
      calculate_total = spec_calculate_total,
      rearrange_updated_items = spec_rearrange_updated_items,
      sort_updated_items = spec_sort_updated_items\<rparr>"

section \<open>Notions the properties are stated with\<close>

definition co2_invariant :: "category list \<Rightarrow> bool" where
  "co2_invariant cs =
     list_all (\<lambda>c. list_all (\<lambda>i. co2 i = of_int (count i) * base_co2 i) (items c)) cs"

definition counts_nonneg :: "category list \<Rightarrow> bool" where
  "counts_nonneg cs = list_all (\<lambda>c. list_all (\<lambda>i. 0 \<le> count i) (items c)) cs"

definition grand_total :: "category list \<Rightarrow> real" where
  "grand_total cs = sum_list (concat (map (\<lambda>c. map co2 (items c)) cs))"

text \<open>
  The calls of \<^verbatim>\<open>mongo.update_item\<close> that a commit has to make, in the order
  of the two nested loops: one for every item with a positive count or co2.
\<close>

definition pending :: "category list \<Rightarrow> (string \<times> item) list" where
  "pending cs =
     concat (map (\<lambda>c. map (\<lambda>i. (category c, i))
                          (filter (\<lambda>i. count i > 0 \<or> co2 i > 0) (items c))) cs)"

text \<open>
  Making a list of those calls one after the other, from a store and a
  dictionary of exchanged items; the first call that raises ends the run, with
  the store as the calls before it left it.
\<close>

fun run_writes :: "'s Co2 \<Rightarrow> (string \<times> item) list \<Rightarrow> 's \<Rightarrow> exc_items \<Rightarrow> 's \<times> (exn + exc_items)" where
  "run_writes m [] s exc = (s, Inr exc)"
| "run_writes m ((c, i) # ws) s exc =
     (case update_item m s c (name i) (count i) (co2 i) of
        Inl e \<Rightarrow> (s, Inl e)
      | Inr s1 \<Rightarrow> run_writes m ws s1
                   (exc_append c \<lparr>e_name = name i, e_count = count i, e_co2 = co2 i\<rparr> exc))"

definition snapshot :: "(string \<times> item) list \<Rightarrow> exc_items \<Rightarrow> exc_items" where
  "snapshot ws exc =
     foldl (\<lambda>acc (c, i). exc_append c \<lparr>e_name = name i, e_count = count i, e_co2 = co2 i\<rparr> acc)
           exc ws"

definition mode_value :: "equivalents \<Rightarrow> string \<Rightarrow> real" where
  "mode_value eq k = (case eq k of None \<Rightarrow> 0 | Some v \<Rightarrow> v)"

fun is_GET_main :: "http_request \<Rightarrow> bool" where
  "is_GET_main (GET_main request) = True"
| "is_GET_main r = False"

subsection \<open>Sample data\<close>

definition sample_items :: "category list" where
  "sample_items =
     [\<lparr>category = ''Kitchen'',
       items = [\<lparr>name = ''Cup'', count = 0, co2 = 0, base_co2 = 2\<rparr>,
                \<lparr>name = ''Plate'', count = 0, co2 = 0, base_co2 = 3\<rparr>]\<rparr>,
      \<lparr>category = ''Clothes'',
       items = [\<lparr>name = ''Shirt'', count = 0, co2 = 0, base_co2 = 5\<rparr>]\<rparr>]"

definition shopping_items :: "category list" where
  "shopping_items =
     [\<lparr>category = ''Kitchen'',
       items = [\<lparr>name = ''Cup'', count = 3, co2 = 6, base_co2 = 2\<rparr>,
                \<lparr>name = ''Plate'', count = 0, co2 = 0, base_co2 = 3\<rparr>]\<rparr>,
      \<lparr>category = ''Clothes'',
       items = [\<lparr>name = ''Shirt'', count = 1, co2 = 5, base_co2 = 5\<rparr>]\<rparr>]"

text \<open>Two categories that each hold an item of the same name.\<close>

definition twin_items :: "category list" where
  "twin_items =
     [\<lparr>category = ''Kitchen'',
       items = [\<lparr>name = ''Bag'', count = 0, co2 = 0, base_co2 = 4\<rparr>]\<rparr>,
      \<lparr>category = ''Clothes'',
       items = [\<lparr>name = ''Bag'', count = 0, co2 = 0, base_co2 = 4\<rparr>]\<rparr>]"

definition sample_docs :: "pcategory list" where
  "sample_docs =
     [\<lparr>p_category = ''Kitchen'',
       p_items = [\<lparr>p_name = ''Cup'', p_count = 0, p_co2 = 0\<rparr>,
                  \<lparr>p_name = ''Plate'', p_count = 0, p_co2 = 0\<rparr>]\<rparr>,
      \<lparr>p_category = ''Clothes'',
       p_items = [\<lparr>p_name = ''Shirt'', p_count = 0, p_co2 = 0\<rparr>]\<rparr>]"

definition empty_store :: store where
  "empty_store = \<lparr>co2_docs = [], sessions = [], logs = []\<rparr>"

definition sample_store :: store where
  "sample_store = \<lparr>co2_docs = sample_docs, sessions = [], logs = []\<rparr>"

definition sample_state :: "store state" where
  "sample_state = \<lparr>g_items = sample_items, g_total_co2 = None, db = sample_store, stdout = []\<rparr>"

definition shopping_state :: "store state" where
  "shopping_state =
     \<lparr>g_items = shopping_items, g_total_co2 = Some 11, db = sample_store, stdout = []\<rparr>"

definition twin_state :: "store state" where
  "twin_state = \<lparr>g_items = twin_items, g_total_co2 = None, db = empty_store, stdout = []\<rparr>"

definition sample_utils :: AppUtils where
  "sample_utils = utils_spec (\<lambda>t. [''car_km'' \<mapsto> t * 5])"

definition sample_request :: request where
  "sample_request = \<lparr>cookies = [''user_name'' \<mapsto> ''Ada'']\<rparr>"

text \<open>A store whose item write raises for one item name, and one whose session insert raises.\<close>

definition refusing_item :: "string \<Rightarrow> store Co2" where
  "refusing_item bad =
     mongo_spec\<lparr>update_item :=
       (\<lambda>s c n k v. if n = bad then Inl (StoreError ''write refused'')
                     else Inr (mongo_update_item s c n k v))\<rparr>"

definition refusing_session :: "store Co2" where
  "refusing_session =
     mongo_spec\<lparr>insert_session := (\<lambda>s t eq exc. Inl (StoreError ''insert refused''))\<rparr>"

text \<open>
  The state after three requests: an increment of \<^verbatim>\<open>Cup\<close>, a GET /main, and the
  local reset of the demo page.
\<close>

definition stale_state :: "store state" where
  "stale_state =
     serve mongo_spec sample_utils
       [POST_main ''increment'' ''Cup'', GET_main sample_request, POST_reset] sample_state"

text \<open>Requests that come in before any GET /main.\<close>

definition early_requests :: "http_request list" where
  "early_requests =
     [GET_demo, POST_main ''increment'' ''Cup'', POST_demo ''increment'' ''Shirt'']"

text \<open>A store that holds two Session Records and persisted counts.\<close>

definition ledger_store :: store where
  "ledger_store =
     \<lparr>co2_docs =
        [\<lparr>p_category = ''Kitchen'',
          p_items = [\<lparr>p_name = ''Cup'', p_count = 3, p_co2 = 6\<rparr>,
                     \<lparr>p_name = ''Plate'', p_count = 0, p_co2 = 0\<rparr>]\<rparr>,
         \<lparr>p_category = ''Clothes'',
          p_items = [\<lparr>p_name = ''Shirt'', p_count = 1, p_co2 = 5\<rparr>]\<rparr>],
      sessions =
        [\<lparr>s_total_co2 = 6, s_equivalents = [''car_km'' \<mapsto> 30], s_exchanged_items = []\<rparr>,
         \<lparr>s_total_co2 = 5, s_equivalents = [''car_km'' \<mapsto> 25], s_exchanged_items = []\<rparr>],
      logs = []\<rparr>"

definition ledger_state :: "store state" where
  "ledger_state = \<lparr>g_items = sample_items, g_total_co2 = Some 0, db = ledger_store, stdout = []\<rparr>"

section \<open>The Item State Table\<close>

lemma update_items_demo_main: "update_items_demo a n xs = update_items_main a n xs"
  by (induction xs) simp_all

lemma update_categories_demo_main:
  "update_categories_demo a n cs = update_categories_main a n cs"
  by (induction cs) (simp_all add: update_items_demo_main)

lemma reset_items_demo_main: "reset_items_demo xs = reset_items_main xs"
  by (induction xs) simp_all

lemma reset_categories_demo_main: "reset_categories_demo cs = reset_categories_main cs"
  by (induction cs) (simp_all add: reset_items_demo_main)

text \<open>
  Claim C10: the update handler of the demo page (POST /) and the one of the
  main page (POST /main) transform the shared state in the same way for every
  action and item name; they differ in the redirect target only.
\<close>

theorem update_count_demo_main_same:
  "snd (update_count_demo action item_name st) = snd (update_count_main action item_name st)
   \<and> fst (update_count_demo action item_name st) = RedirectResponse ''/'' 303 []
   \<and> fst (update_count_main action item_name st) = RedirectResponse ''/main'' 303 []"
  by (simp add: update_count_demo_def update_count_main_def update_categories_demo_main)

subsection \<open>The invariant\<close>

lemma update_items_main_inv:
  "list_all (\<lambda>i. co2 i = of_int (count i) * base_co2 i) xs \<Longrightarrow>
   list_all (\<lambda>i. co2 i = of_int (count i) * base_co2 i) (update_items_main a n xs)"
  by (induction xs) (simp_all add: Let_def)

lemma update_categories_main_inv:
  "co2_invariant cs \<Longrightarrow> co2_invariant (update_categories_main a n cs)"
  unfolding co2_invariant_def
  by (induction cs) (simp_all add: update_items_main_inv)

lemma reset_items_main_inv:
  "list_all (\<lambda>i. co2 i = of_int (count i) * base_co2 i) (reset_items_main xs)"
  by (induction xs) simp_all

lemma reset_categories_main_inv: "co2_invariant (reset_categories_main cs)"
  unfolding co2_invariant_def
  by (induction cs) (simp_all add: reset_items_main_inv)

lemma renew_main_items:
  "g_items (snd (renew_main m u st)) = g_items st \<or>
   g_items (snd (renew_main m u st)) = reset_categories_main (g_items st)"
  by (simp add: renew_main_def renew_try_def split: prod.splits sum.splits option.splits)

text \<open>
  Claim C3: if \<open>co2 = count * base_co2\<close> holds for every item of the table, it
  holds for every item after an update request of either page (whatever the
  action and the item name), after the local reset, and after a commit, whether
  the commit reached its final reset or raised before it.
\<close>

theorem co2_invariant_preserved:
  assumes "co2_invariant (g_items st)"
  shows "co2_invariant (g_items (snd (update_count_main action item_name st)))
     \<and> co2_invariant (g_items (snd (update_count_demo action item_name st)))
     \<and> co2_invariant (g_items (snd (renew_demo st)))
     \<and> co2_invariant (g_items (snd (renew_main m u st)))"
proof -
  have "co2_invariant (g_items (snd (renew_main m u st)))"
    using renew_main_items [of m u st] assms by (auto simp: reset_categories_main_inv)
  then show ?thesis
    using assms
    by (simp add: update_count_main_def update_count_demo_def renew_demo_def
        update_categories_demo_main reset_categories_demo_main
        update_categories_main_inv reset_categories_main_inv)
qed

theorem co2_invariant_preserved_witness:
  "co2_invariant (g_items shopping_state)
   \<and> co2_invariant (g_items (snd (update_count_main ''increment'' ''Cup'' shopping_state)))
   \<and> co2_invariant (g_items (snd (update_count_demo ''decrement'' ''Shirt'' shopping_state)))
   \<and> co2_invariant (g_items (snd (renew_demo shopping_state)))
   \<and> co2_invariant (g_items (snd (renew_main mongo_spec sample_utils shopping_state)))"
proof -
  have h: "co2_invariant (g_items shopping_state)"
    by (simp add: shopping_state_def shopping_items_def co2_invariant_def)
  have "co2_invariant (g_items (snd (update_count_main ''increment'' ''Cup'' shopping_state)))"
    using co2_invariant_preserved [OF h] by blast
  moreover have "co2_invariant (g_items (snd (update_count_demo ''decrement'' ''Shirt'' shopping_state)))"
    using co2_invariant_preserved [OF h] by blast
  moreover have "co2_invariant (g_items (snd (renew_demo shopping_state)))"
    using co2_invariant_preserved [OF h] by blast
  moreover have "co2_invariant (g_items (snd (renew_main mongo_spec sample_utils shopping_state)))"
    using co2_invariant_preserved [OF h] by blast
  ultimately show ?thesis using h by blast
qed

subsection \<open>Decrement\<close>

lemma update_items_main_dec_rel:
  "list_all2 (\<lambda>i i'. (count i' = count i \<or> (name i = n \<and> count i' = max 0 (count i - 1)))
       \<and> (count i = 0 \<longrightarrow> count i' = 0) \<and> (0 \<le> count i \<longrightarrow> 0 \<le> count i')
       \<and> (i' \<noteq> i \<longrightarrow> 0 \<le> count i'))
     xs (update_items_main ''decrement'' n xs)"
  by (induction xs) (simp_all add: Let_def list.rel_refl)

lemma update_categories_main_dec_rel:
  "list_all2 (\<lambda>c c'. list_all2 (\<lambda>i i'.
         (count i' = count i \<or> (name i = n \<and> count i' = max 0 (count i - 1)))
       \<and> (count i = 0 \<longrightarrow> count i' = 0) \<and> (0 \<le> count i \<longrightarrow> 0 \<le> count i')
       \<and> (i' \<noteq> i \<longrightarrow> 0 \<le> count i')) (items c) (items c'))
     cs (update_categories_main ''decrement'' n cs)"
  by (induction cs) (simp_all add: update_items_main_dec_rel)

lemma update_items_main_first_match:
  "name i \<notin> name ` set pre \<Longrightarrow>
   update_items_main a (name i) (pre @ i # post) =
     pre @ (let item1 = (if a = ''increment'' then i\<lparr>count := count i + 1\<rparr>
                         else if a = ''decrement'' then i\<lparr>count := max 0 (count i - 1)\<rparr>
                         else i)
            in item1\<lparr>co2 := of_int (count item1) * base_co2 item1\<rparr>) # post"
  by (induction pre) auto

lemma update_items_main_no_match:
  "n \<notin> name ` set xs \<Longrightarrow> update_items_main a n xs = xs"
  by (induction xs) auto

lemma update_categories_main_no_match:
  "list_all (\<lambda>c. n \<notin> name ` set (items c)) cs \<Longrightarrow> update_categories_main a n cs = cs"
  by (induction cs) (simp_all add: update_items_main_no_match)

text \<open>
  Claim C6: a decrement request, on either page and for any item name, relates
  every item of the table to the item in its place afterwards as follows. The
  count is unchanged or, for an item of that name, it is \<open>max 0 (count - 1)\<close>; a
  count of 0 stays 0; a count that was not negative is not negative; and an item
  that the request changed has a count that is not negative. The item that the
  request is applied to, the first of that name in its category, ends with the
  count \<open>max 0 (count - 1)\<close>, which is not negative.
\<close>

theorem decrement_count_nonneg:
  "list_all2 (\<lambda>c c'. list_all2 (\<lambda>i i'.
         (count i' = count i \<or> (name i = item_name \<and> count i' = max 0 (count i - 1)))
       \<and> (count i = 0 \<longrightarrow> count i' = 0) \<and> (0 \<le> count i \<longrightarrow> 0 \<le> count i')
       \<and> (i' \<noteq> i \<longrightarrow> 0 \<le> count i')) (items c) (items c'))
     (g_items st) (g_items (snd (update_count_main ''decrement'' item_name st)))
   \<and> list_all2 (\<lambda>c c'. list_all2 (\<lambda>i i'.
         (count i' = count i \<or> (name i = item_name \<and> count i' = max 0 (count i - 1)))
       \<and> (count i = 0 \<longrightarrow> count i' = 0) \<and> (0 \<le> count i \<longrightarrow> 0 \<le> count i')
       \<and> (i' \<noteq> i \<longrightarrow> 0 \<le> count i')) (items c) (items c'))
     (g_items st) (g_items (snd (update_count_demo ''decrement'' item_name st)))
   \<and> (name i \<notin> name ` set pre \<longrightarrow>
        (\<exists>i'. update_items_main ''decrement'' (name i) (pre @ i # post) = pre @ i' # post
              \<and> update_items_demo ''decrement'' (name i) (pre @ i # post) = pre @ i' # post
              \<and> count i' = max 0 (count i - 1) \<and> 0 \<le> count i'))"
  by (simp add: update_count_main_def update_count_demo_def update_categories_demo_main
      update_items_demo_main update_categories_main_dec_rel update_items_main_first_match Let_def)

theorem decrement_count_nonneg_witness:
  "map (\<lambda>c. map count (items c))
     (g_items (snd (update_count_main ''decrement'' ''Cup'' shopping_state))) = [[2, 0], [1]]
   \<and> map (\<lambda>c. map count (items c))
     (g_items (snd (update_count_demo ''decrement'' ''Plate'' shopping_state))) = [[3, 0], [1]]
   \<and> ''Plate'' \<notin> name ` set [\<lparr>name = ''Cup'', count = 3, co2 = 6, base_co2 = 2\<rparr>]
   \<and> map count (update_items_main ''decrement'' ''Plate''
         ([\<lparr>name = ''Cup'', count = 3, co2 = 6, base_co2 = 2\<rparr>]
            @ \<lparr>name = ''Plate'', count = 0, co2 = 0, base_co2 = 3\<rparr> # [])) = [3, 0]"
  using decrement_count_nonneg [of "''Cup''" shopping_state
      "\<lparr>name = ''Plate'', count = 0, co2 = 0, base_co2 = 3\<rparr>"
      "[\<lparr>name = ''Cup'', count = 3, co2 = 6, base_co2 = 2\<rparr>]" "[]"]
    decrement_count_nonneg [of "''Plate''" shopping_state
      "\<lparr>name = ''Plate'', count = 0, co2 = 0, base_co2 = 3\<rparr>"
      "[\<lparr>name = ''Cup'', count = 3, co2 = 6, base_co2 = 2\<rparr>]" "[]"]
  by (simp add: update_count_main_def update_count_demo_def shopping_state_def shopping_items_def)

subsection \<open>Increment, then decrement\<close>

lemma update_items_main_inc_dec:
  "list_all (\<lambda>i. co2 i = of_int (count i) * base_co2 i) xs \<Longrightarrow>
   list_all (\<lambda>i. 0 \<le> count i) xs \<Longrightarrow>
   update_items_main ''decrement'' n (update_items_main ''increment'' n xs) = xs"
  by (induction xs) (simp_all add: Let_def)

lemma update_categories_main_inc_dec:
  "co2_invariant cs \<Longrightarrow> counts_nonneg cs \<Longrightarrow>
   update_categories_main ''decrement'' n (update_categories_main ''increment'' n cs) = cs"
  unfolding co2_invariant_def counts_nonneg_def
  by (induction cs) (simp_all add: update_items_main_inc_dec)

text \<open>
  Counts that are not negative stay so under every request, so a table loaded
  with such counts never holds a negative one.
\<close>

lemma update_items_main_nonneg:
  "list_all (\<lambda>i. 0 \<le> count i) xs \<Longrightarrow>
   list_all (\<lambda>i. 0 \<le> count i) (update_items_main a n xs)"
  by (induction xs) (simp_all add: Let_def)

lemma update_categories_main_nonneg:
  "counts_nonneg cs \<Longrightarrow> counts_nonneg (update_categories_main a n cs)"
  unfolding counts_nonneg_def
  by (induction cs) (simp_all add: update_items_main_nonneg)

lemma reset_items_main_nonneg: "list_all (\<lambda>i. 0 \<le> count i) (reset_items_main xs)"
  by (induction xs) simp_all

lemma reset_categories_main_nonneg: "counts_nonneg (reset_categories_main cs)"
  unfolding counts_nonneg_def
  by (induction cs) (simp_all add: reset_items_main_nonneg)

lemma handle_counts_nonneg:
  assumes "counts_nonneg (g_items st)"
  shows "counts_nonneg (g_items (snd (handle m u r st)))"
proof (cases r)
  case POST_main_reset
  then show ?thesis
    using renew_main_items [of m u st] assms by (auto simp: reset_categories_main_nonneg)
next
  case (POST_main_logout q)
  then show ?thesis
    using assms by (simp add: logout_def Let_def split: prod.splits sum.splits)
qed (use assms in \<open>simp_all add: demo_def update_count_demo_def renew_demo_def
      update_count_main_def main_def reset_count_def clear_sessions_route_def Let_def
      update_categories_demo_main reset_categories_demo_main update_categories_main_nonneg
      reset_categories_main_nonneg split: prod.splits sum.splits\<close>)

lemma serve_counts_nonneg:
  "counts_nonneg (g_items st) \<Longrightarrow> counts_nonneg (g_items (serve m u rs st))"
  by (induction rs arbitrary: st) (simp_all add: handle_counts_nonneg)

text \<open>
  Claim C7: in a state that satisfies the co2 invariant and whose counts are
  not negative (the data model's counts), an increment of an item name followed
  by a decrement of the same name gives back the state it started from: the
  named item has its count and co2 again, and every other item is unchanged.
  This holds on the main page and on the demo page.
\<close>

theorem increment_then_decrement:
  assumes "co2_invariant (g_items st)" and "counts_nonneg (g_items st)"
  shows "snd (update_count_main ''decrement'' item_name
            (snd (update_count_main ''increment'' item_name st))) = st
     \<and> snd (update_count_demo ''decrement'' item_name
            (snd (update_count_demo ''increment'' item_name st))) = st"
  using assms
  by (simp add: update_count_main_def update_count_demo_def update_categories_demo_main
      update_categories_main_inc_dec)

theorem increment_then_decrement_witness:
  "co2_invariant (g_items shopping_state) \<and> counts_nonneg (g_items shopping_state)
   \<and> snd (update_count_main ''decrement'' ''Cup''
         (snd (update_count_main ''increment'' ''Cup'' shopping_state))) = shopping_state
   \<and> snd (update_count_demo ''decrement'' ''Cup''
         (snd (update_count_demo ''increment'' ''Cup'' shopping_state))) = shopping_state"
proof -
  have h1: "co2_invariant (g_items shopping_state)"
    by (simp add: shopping_state_def shopping_items_def co2_invariant_def)
  have h2: "counts_nonneg (g_items shopping_state)"
    by (simp add: shopping_state_def shopping_items_def counts_nonneg_def)
  show ?thesis
    using h1 h2 increment_then_decrement [OF h1 h2, of "''Cup''"] by blast
qed

subsection \<open>Item lookup\<close>

text \<open>
  Inside one category the scan stops at the first item of the name
  (\<open>update_items_main_first_match\<close>), and a name that no item has changes
  nothing (\<open>update_categories_main_no_match\<close>). The \<^verbatim>\<open>break\<close> leaves the inner
  loop only, so the scan goes on in the categories that follow.
\<close>

text \<open>
  Claim C8: only the first item whose name matches is mutated. The code does
  otherwise when two categories each hold an item of the name: an increment of
  \<^verbatim>\<open>Bag\<close> on the table \<open>twin_items\<close> raises the count of the item in the first
  category and the count of the item in the second.
\<close>

theorem update_count_same_name_two_categories:
  "g_items (snd (update_count_main ''increment'' ''Bag'' twin_state)) =
     [\<lparr>category = ''Kitchen'',
       items = [\<lparr>name = ''Bag'', count = 1, co2 = 4, base_co2 = 4\<rparr>]\<rparr>,
      \<lparr>category = ''Clothes'',
       items = [\<lparr>name = ''Bag'', count = 1, co2 = 4, base_co2 = 4\<rparr>]\<rparr>]"
  by (simp add: update_count_main_def twin_state_def twin_items_def)

section \<open>Commit\<close>

lemma mongo_spec_simps:
  "count_documents mongo_spec s = length (co2_docs s)"
  "insert_items mongo_spec s cs = Inr (mongo_insert_items s cs)"
  "update_item mongo_spec s c n k v = Inr (mongo_update_item s c n k v)"
  "insert_session mongo_spec s t eq exc = Inr (mongo_insert_session s t eq exc)"
  "get_all_sessions mongo_spec s = sessions s"
  "get_updated_items mongo_spec s = co2_docs s"
  "log_out mongo_spec s user cnt sorted_items tot = Inr (mongo_log_out s user cnt sorted_items tot)"
  "reset_counts mongo_spec s cs = Inr (mongo_reset_counts s cs)"
  "clear_sessions mongo_spec s = Inr (mongo_clear_sessions s)"
  by (simp_all add: mongo_spec_def)

lemma utils_spec_simps:
  "calculate_equivalents (utils_spec calc) = calc"
  "calculate_total (utils_spec calc) = spec_calculate_total"
  "rearrange_updated_items (utils_spec calc) = spec_rearrange_updated_items"
  "sort_updated_items (utils_spec calc) = spec_sort_updated_items"
  by (simp_all add: utils_spec_def)

text \<open>The two nested loops make the pending calls in order.\<close>

lemma run_writes_append:
  "run_writes m (ws @ vs) s exc =
     (case run_writes m ws s exc of
        (s1, Inl e) \<Rightarrow> (s1, Inl e)
      | (s1, Inr exc1) \<Rightarrow> run_writes m vs s1 exc1)"
  by (induction ws arbitrary: s exc) (auto split: sum.splits prod.splits)

lemma renew_items_run:
  "renew_items m c xs s exc =
     run_writes m (map (\<lambda>i. (c, i)) (filter (\<lambda>i. count i > 0 \<or> co2 i > 0) xs)) s exc"
  by (induction xs arbitrary: s exc) (auto split: sum.splits)

lemma renew_categories_run:
  "renew_categories m cs s exc = run_writes m (pending cs) s exc"
  by (induction cs arbitrary: s exc)
     (auto simp: pending_def renew_items_run run_writes_append split: sum.splits prod.splits)

lemma run_writes_fail:
  assumes "run_writes m ws s exc = (s1, Inr exc1)"
    and "update_item m s1 c (name i) (count i) (co2 i) = Inl e"
  shows "run_writes m (ws @ (c, i) # rest) s exc = (s1, Inl e)"
  using assms by (simp add: run_writes_append)

text \<open>
  Claim C2: when a document-store write raises during a commit, the exception
  is printed and raised again, the store is left as the writes before the
  failing one made it, and the in-memory table (and the global total) is as it
  was when the commit started. The first part is a raising
  \<^verbatim>\<open>mongo.update_item\<close>, after the pending writes \<open>ws\<close> went through; the
  second a raising \<^verbatim>\<open>mongo.insert_session\<close>, after all of them did.
\<close>

theorem renew_main_write_failure:
  "(pending (g_items st) = ws @ (c, i) # rest \<and>
    run_writes m ws (db st) [] = (s1, Inr exc1) \<and>
    update_item m s1 c (name i) (count i) (co2 i) = Inl e
    \<longrightarrow> renew_main m u st =
          (Inl e, st\<lparr>db := s1, stdout := stdout st @ [''Error in /reset: '' @ str e]\<rparr>))
   \<and> (run_writes m (pending (g_items st)) (db st) [] = (s2, Inr exc) \<and>
      g_total_co2 st = Some t \<and> 0 < t \<and>
      insert_session m s2 t (calculate_equivalents u t) exc = Inl e'
    \<longrightarrow> renew_main m u st =
          (Inl e', st\<lparr>db := s2, stdout := stdout st @ [''Error in /reset: '' @ str e']\<rparr>))"
  by (auto simp: renew_main_def renew_try_def renew_categories_run run_writes_fail)

theorem renew_main_write_failure_witness:
  "renew_main (refusing_item ''Shirt'') sample_utils shopping_state =
     (Inl (StoreError ''write refused''),
      shopping_state\<lparr>db := mongo_update_item sample_store ''Kitchen'' ''Cup'' 3 6,
                     stdout := [''Error in /reset: write refused'']\<rparr>)
   \<and> renew_main refusing_session sample_utils shopping_state =
     (Inl (StoreError ''insert refused''),
      shopping_state\<lparr>db := mongo_update_item
                             (mongo_update_item sample_store ''Kitchen'' ''Cup'' 3 6)
                             ''Clothes'' ''Shirt'' 1 5,
                     stdout := [''Error in /reset: insert refused'']\<rparr>)"
proof -
  have p: "pending (g_items shopping_state) =
     [(''Kitchen'', \<lparr>name = ''Cup'', count = 3, co2 = 6, base_co2 = 2\<rparr>)]
       @ (''Clothes'', \<lparr>name = ''Shirt'', count = 1, co2 = 5, base_co2 = 5\<rparr>) # []"
    by (simp add: pending_def shopping_state_def shopping_items_def)
  have r1: "run_writes (refusing_item ''Shirt'')
        [(''Kitchen'', \<lparr>name = ''Cup'', count = 3, co2 = 6, base_co2 = 2\<rparr>)] (db shopping_state) []
      = (mongo_update_item sample_store ''Kitchen'' ''Cup'' 3 6,
         Inr [(''Kitchen'', [\<lparr>e_name = ''Cup'', e_count = 3, e_co2 = 6\<rparr>])])"
    by (simp add: refusing_item_def shopping_state_def exc_append_def)
  have r2: "update_item (refusing_item ''Shirt'')
        (mongo_update_item sample_store ''Kitchen'' ''Cup'' 3 6) ''Clothes''
        (name \<lparr>name = ''Shirt'', count = 1, co2 = 5, base_co2 = 5\<rparr>)
        (count \<lparr>name = ''Shirt'', count = 1, co2 = 5, base_co2 = 5\<rparr>)
        (co2 \<lparr>name = ''Shirt'', count = 1, co2 = 5, base_co2 = 5\<rparr>)
      = Inl (StoreError ''write refused'')"
    by (simp add: refusing_item_def)
  have r3: "run_writes refusing_session (pending (g_items shopping_state)) (db shopping_state) []
      = (mongo_update_item (mongo_update_item sample_store ''Kitchen'' ''Cup'' 3 6)
           ''Clothes'' ''Shirt'' 1 5,
         Inr [(''Kitchen'', [\<lparr>e_name = ''Cup'', e_count = 3, e_co2 = 6\<rparr>]),
              (''Clothes'', [\<lparr>e_name = ''Shirt'', e_count = 1, e_co2 = 5\<rparr>])])"
    by (simp add: pending_def shopping_state_def shopping_items_def refusing_session_def
        mongo_spec_simps exc_append_def)
  have r4: "insert_session refusing_session s t eq exc = Inl (StoreError ''insert refused'')"
    for s t eq exc
    by (simp add: refusing_session_def)
  have t: "g_total_co2 shopping_state = Some 11" "(0::real) < 11" "stdout shopping_state = []"
    by (simp_all add: shopping_state_def)
  note a = renew_main_write_failure [where st = shopping_state
        and ws = "[(''Kitchen'', \<lparr>name = ''Cup'', count = 3, co2 = 6, base_co2 = 2\<rparr>)]"
        and c = "''Clothes''" and i = "\<lparr>name = ''Shirt'', count = 1, co2 = 5, base_co2 = 5\<rparr>"
        and rest = "[]" and m = "refusing_item ''Shirt''"
        and ?s1.0 = "mongo_update_item sample_store ''Kitchen'' ''Cup'' 3 6"
        and ?exc1.0 = "[(''Kitchen'', [\<lparr>e_name = ''Cup'', e_count = 3, e_co2 = 6\<rparr>])]"
        and e = "StoreError ''write refused''" and u = sample_utils,
        THEN conjunct1, THEN mp, OF conjI [OF p conjI [OF r1 r2]]]
  note b = renew_main_write_failure [where st = shopping_state and m = refusing_session
        and u = sample_utils
        and ?s2.0 = "mongo_update_item (mongo_update_item sample_store ''Kitchen'' ''Cup'' 3 6)
                       ''Clothes'' ''Shirt'' 1 5"
        and exc = "[(''Kitchen'', [\<lparr>e_name = ''Cup'', e_count = 3, e_co2 = 6\<rparr>]),
                    (''Clothes'', [\<lparr>e_name = ''Shirt'', e_count = 1, e_co2 = 5\<rparr>])]"
        and t = 11 and e' = "StoreError ''insert refused''",
        THEN conjunct2, THEN mp, OF conjI [OF r3 conjI [OF t(1) conjI [OF t(2) r4]]]]
  show ?thesis
    using a b by (simp add: t)
qed

subsection \<open>The global total\<close>

lemma renew_main_total: "g_total_co2 (snd (renew_main m u st)) = g_total_co2 st"
  by (simp add: renew_main_def renew_try_def split: prod.splits sum.splits option.splits)

lemma logout_total: "g_total_co2 (snd (logout m u q st)) = g_total_co2 st"
  by (simp add: logout_def Let_def split: prod.splits sum.splits)

text \<open>GET /main is the only route that assigns the global.\<close>

lemma handle_total:
  "\<not> is_GET_main r \<Longrightarrow> g_total_co2 (snd (handle m u r st)) = g_total_co2 st"
  by (cases r)
     (simp_all add: demo_def update_count_demo_def renew_demo_def update_count_main_def
        renew_main_total logout_total reset_count_def clear_sessions_route_def Let_def
        split: sum.splits)

lemma serve_total:
  "list_all (\<lambda>r. \<not> is_GET_main r) rs \<Longrightarrow> g_total_co2 (serve m u rs st) = g_total_co2 st"
  by (induction rs arbitrary: st) (simp_all add: handle_total)

lemma startup_total: "startup m items0 s0 = Inr st0 \<Longrightarrow> g_total_co2 st0 = None"
  by (auto simp: startup_def split: if_splits sum.splits)

lemma renew_main_unbound:
  assumes "g_total_co2 st = None"
  shows "(\<exists>e. fst (renew_main m u st) = Inl e) \<and>
     g_items (snd (renew_main m u st)) = g_items st \<and>
     (run_writes m (pending (g_items st)) (db st) [] = (s1, Inr exc) \<longrightarrow>
        renew_main m u st =
          (Inl (NameError ''total_co2''),
           st\<lparr>db := s1,
              stdout := stdout st @ [''Error in /reset: '' @ str (NameError ''total_co2'')]\<rparr>))"
  using assms
  by (auto simp: renew_main_def renew_try_def renew_categories_run split: prod.splits sum.splits)

lemma startup_sample: "startup mongo_spec sample_items empty_store = Inr sample_state"
  by (simp add: startup_def mongo_spec_simps empty_store_def mongo_insert_items_def
      sample_items_def sample_state_def sample_store_def sample_docs_def)

lemma serve_early_requests:
  "serve mongo_spec sample_utils early_requests sample_state =
     \<lparr>g_items =
        [\<lparr>category = ''Kitchen'',
          items = [\<lparr>name = ''Cup'', count = 1, co2 = 2, base_co2 = 2\<rparr>,
                   \<lparr>name = ''Plate'', count = 0, co2 = 0, base_co2 = 3\<rparr>]\<rparr>,
         \<lparr>category = ''Clothes'',
          items = [\<lparr>name = ''Shirt'', count = 1, co2 = 5, base_co2 = 5\<rparr>]\<rparr>],
      g_total_co2 = None, db = sample_store, stdout = []\<rparr>"
  by (simp add: early_requests_def sample_state_def sample_items_def demo_def
      update_count_main_def update_count_demo_def Let_def)

text \<open>
  Claim C9: the commit handler reads the global \<^verbatim>\<open>total_co2\<close>, which only GET
  /main assigns. In an execution that starts the module and serves requests
  none of which is a GET /main, the global is still unbound; a commit then
  never returns normally and leaves the in-memory table as it was, and when its
  item writes go through it raises the \<^verbatim>\<open>NameError\<close> for \<^verbatim>\<open>total_co2\<close> after
  them: the store holds those writes and the error is printed.
\<close>

theorem renew_main_before_main:
  assumes "startup m items0 s0 = Inr st0" and "list_all (\<lambda>r. \<not> is_GET_main r) rs"
  shows "g_total_co2 (serve m u rs st0) = None
     \<and> (\<exists>e. fst (handle m u POST_main_reset (serve m u rs st0)) = Inl e)
     \<and> g_items (snd (handle m u POST_main_reset (serve m u rs st0))) = g_items (serve m u rs st0)
     \<and> (run_writes m (pending (g_items (serve m u rs st0))) (db (serve m u rs st0)) []
          = (s1, Inr exc)
        \<longrightarrow> handle m u POST_main_reset (serve m u rs st0) =
             (Inl (NameError ''total_co2''),
              (serve m u rs st0)\<lparr>db := s1,
                 stdout := stdout (serve m u rs st0)
                   @ [''Error in /reset: '' @ str (NameError ''total_co2'')]\<rparr>))"
proof -
  have "g_total_co2 (serve m u rs st0) = None"
    using assms by (simp add: serve_total startup_total)
  then show ?thesis
    using renew_main_unbound [of "serve m u rs st0" m u s1 exc] by simp
qed

theorem renew_main_before_main_witness:
  "startup mongo_spec sample_items empty_store = Inr sample_state
   \<and> list_all (\<lambda>r. \<not> is_GET_main r) early_requests
   \<and> g_total_co2 (serve mongo_spec sample_utils early_requests sample_state) = None
   \<and> handle mongo_spec sample_utils POST_main_reset
         (serve mongo_spec sample_utils early_requests sample_state) =
       (Inl (NameError ''total_co2''),
        (serve mongo_spec sample_utils early_requests sample_state)
          \<lparr>db := mongo_update_item (mongo_update_item sample_store ''Kitchen'' ''Cup'' 1 2)
                   ''Clothes'' ''Shirt'' 1 5,
           stdout := [''Error in /reset: name '' @ [CHR 0x27] @ ''total_co2'' @ [CHR 0x27]
                        @ '' is not defined'']\<rparr>)"
proof -
  have h2: "list_all (\<lambda>r. \<not> is_GET_main r) early_requests"
    by (simp add: early_requests_def)
  have h3: "run_writes mongo_spec
       (pending (g_items (serve mongo_spec sample_utils early_requests sample_state)))
       (db (serve mongo_spec sample_utils early_requests sample_state)) []
     = (mongo_update_item (mongo_update_item sample_store ''Kitchen'' ''Cup'' 1 2)
          ''Clothes'' ''Shirt'' 1 5,
        Inr [(''Kitchen'', [\<lparr>e_name = ''Cup'', e_count = 1, e_co2 = 2\<rparr>]),
             (''Clothes'', [\<lparr>e_name = ''Shirt'', e_count = 1, e_co2 = 5\<rparr>])])"
    by (simp add: serve_early_requests pending_def mongo_spec_simps exc_append_def)
  have out: "stdout (serve mongo_spec sample_utils early_requests sample_state) = []"
    by (simp add: serve_early_requests)
  note a = renew_main_before_main [OF startup_sample h2, where u = sample_utils]
  from a [THEN conjunct2, THEN conjunct2, THEN conjunct2, THEN mp, OF h3]
    a [THEN conjunct1] startup_sample h2 out
  show ?thesis by simp
qed

subsection \<open>The Session Record\<close>

lemma run_writes_spec:
  "\<exists>s1. run_writes mongo_spec ws s exc = (s1, Inr (snapshot ws exc))
     \<and> sessions s1 = sessions s \<and> logs s1 = logs s"
proof (induction ws arbitrary: s exc)
  case Nil
  show ?case by (simp add: snapshot_def)
next
  case (Cons w ws)
  obtain c i where w: "w = (c, i)" by (cases w)
  show ?case
    using Cons.IH [of "mongo_update_item s c (name i) (count i) (co2 i)"
        "exc_append c \<lparr>e_name = name i, e_count = count i, e_co2 = co2 i\<rparr> exc"]
    by (simp add: w snapshot_def mongo_spec_simps mongo_update_item_def)
qed

lemma renew_main_spec_sessions:
  "sessions (db (snd (renew_main mongo_spec u st))) =
     (case g_total_co2 st of
        None \<Rightarrow> sessions (db st)
      | Some t \<Rightarrow>
          if 0 < t then
            sessions (db st) @
              [\<lparr>s_total_co2 = t, s_equivalents = calculate_equivalents u t,
                s_exchanged_items = snapshot (pending (g_items st)) []\<rparr>]
          else sessions (db st))"
proof -
  obtain s1 where r: "run_writes mongo_spec (pending (g_items st)) (db st) [] =
      (s1, Inr (snapshot (pending (g_items st)) []))" and s: "sessions s1 = sessions (db st)"
    using run_writes_spec by blast
  show ?thesis
    by (simp add: renew_main_def renew_try_def renew_categories_run r s
        mongo_spec_simps mongo_insert_session_def split: option.splits)
qed

lemma main_state:
  "snd (main m u q st) = st\<lparr>g_total_co2 := Some (grand_total (g_items st))\<rparr>"
  by (simp add: main_def grand_total_def Let_def split: prod.splits)

lemma stale_state_value:
  "stale_state = \<lparr>g_items = sample_items, g_total_co2 = Some 2, db = sample_store, stdout = []\<rparr>"
  by (simp add: stale_state_def sample_state_def sample_items_def update_count_main_def
      main_def renew_demo_def Let_def split: prod.splits)

text \<open>
  Claim C1, as the code has it: on a store whose writes succeed, a commit
  writes exactly one new Session Record when the global \<^verbatim>\<open>total_co2\<close> is bound
  and strictly positive, and otherwise leaves the Session Ledger unchanged; the
  global is the grand total that the last GET /main computed. So a commit that
  directly follows a GET /main writes exactly one new Session Record if and
  only if the grand total CO2 over all in-memory items is strictly positive,
  and leaves the ledger unchanged when it is not.
\<close>

theorem renew_main_session_record:
  "sessions (db (snd (renew_main mongo_spec u st))) =
     (case g_total_co2 st of
        None \<Rightarrow> sessions (db st)
      | Some t \<Rightarrow>
          if 0 < t then
            sessions (db st) @
              [\<lparr>s_total_co2 = t, s_equivalents = calculate_equivalents u t,
                s_exchanged_items = snapshot (pending (g_items st)) []\<rparr>]
          else sessions (db st))
   \<and> sessions (db (snd (renew_main mongo_spec u (snd (main mongo_spec u q st))))) =
     (if 0 < grand_total (g_items st) then
        sessions (db st) @
          [\<lparr>s_total_co2 = grand_total (g_items st),
            s_equivalents = calculate_equivalents u (grand_total (g_items st)),
            s_exchanged_items = snapshot (pending (g_items st)) []\<rparr>]
      else sessions (db st))"
  by (simp add: renew_main_spec_sessions main_state)

text \<open>
  The claim as the specification words it, with the total taken at the time of
  the commit, fails in \<open>stale_state\<close>: every item has count 0 and co2 0, the
  ledger is empty, and the commit writes a Session Record.
\<close>

theorem renew_main_stale_total_counterexample:
  "g_items stale_state = sample_items
   \<and> grand_total (g_items stale_state) = 0
   \<and> sessions (db stale_state) = []
   \<and> length (sessions (db (snd (handle mongo_spec sample_utils POST_main_reset stale_state)))) = 1"
  by (simp add: renew_main_spec_sessions)
     (simp add: stale_state_value grand_total_def sample_items_def sample_store_def)

section \<open>Logout\<close>

lemma foldl_totals_co2:
  "t_co2 (foldl (\<lambda>t s. \<lparr>t_co2 = t_co2 t + s_total_co2 s,
                     t_equivalents = add_equivalents (t_equivalents t) (s_equivalents s)\<rparr>) t0 ss)
   = t_co2 t0 + sum_list (map s_total_co2 ss)"
  by (induction ss arbitrary: t0) simp_all

lemma mode_value_add:
  "mode_value (add_equivalents a b) k = mode_value a k + mode_value b k"
  by (simp add: mode_value_def add_equivalents_def split: option.splits)

lemma mode_value_empty: "mode_value Map.empty k = 0"
  by (simp add: mode_value_def)

lemma foldl_totals_equivalents:
  "mode_value (t_equivalents (foldl (\<lambda>t s. \<lparr>t_co2 = t_co2 t + s_total_co2 s,
                     t_equivalents = add_equivalents (t_equivalents t) (s_equivalents s)\<rparr>) t0 ss)) k
   = mode_value (t_equivalents t0) k + sum_list (map (\<lambda>s. mode_value (s_equivalents s) k) ss)"
  by (induction ss arbitrary: t0) (simp_all add: mode_value_add)

lemma logout_skip:
  "snd (calculate_total u (get_all_sessions m (db st))) \<le> 0 \<Longrightarrow>
   logout m u q st = (Inr (RedirectResponse ''/'' 303 [''user_name'']), st)"
  by (cases "calculate_total u (get_all_sessions m (db st))") (simp add: logout_def)

text \<open>
  Claim C4: a logout with N > 0 Session Records in the ledger returns the
  redirect; afterwards the Session Ledger is empty, the log holds exactly one
  new Logout Archive Entry, whose session count is N and whose cumulative
  totals are the sums over the N records (of \<^verbatim>\<open>total_co2\<close>, and of the
  equivalents for every mode), and every persisted item count is 0.
\<close>

theorem logout_archives_sessions:
  assumes "sessions (db st) \<noteq> []"
  shows "fst (logout mongo_spec (utils_spec calc) q st)
       = Inr (RedirectResponse ''/'' 303 [''user_name''])
    \<and> sessions (db (snd (logout mongo_spec (utils_spec calc) q st))) = []
    \<and> (\<exists>entry. logs (db (snd (logout mongo_spec (utils_spec calc) q st))) = logs (db st) @ [entry]
         \<and> l_user_name entry = cookies q ''user_name''
         \<and> l_sessions entry = int (length (sessions (db st)))
         \<and> t_co2 (l_total entry) = sum_list (map s_total_co2 (sessions (db st)))
         \<and> (\<forall>k. mode_value (t_equivalents (l_total entry)) k
                  = sum_list (map (\<lambda>s. mode_value (s_equivalents s) k) (sessions (db st)))))
    \<and> list_all (\<lambda>d. list_all (\<lambda>i. p_count i = 0) (p_items d))
         (co2_docs (db (snd (logout mongo_spec (utils_spec calc) q st))))"
proof -
  have n: "0 < int (length (sessions (db st)))" using assms by simp
  show ?thesis
    using n
    by (simp add: logout_def Let_def mongo_spec_simps utils_spec_simps spec_calculate_total_def
        mongo_log_out_def mongo_reset_counts_def mongo_clear_sessions_def
        foldl_totals_co2 foldl_totals_equivalents mode_value_empty list_all_iff)
qed

theorem logout_archives_sessions_witness:
  "sessions (db ledger_state) \<noteq> []
   \<and> sessions (db (snd (logout mongo_spec sample_utils sample_request ledger_state))) = []
   \<and> map l_sessions (logs (db (snd (logout mongo_spec sample_utils sample_request ledger_state))))
       = [2]
   \<and> map (\<lambda>e. t_co2 (l_total e))
         (logs (db (snd (logout mongo_spec sample_utils sample_request ledger_state)))) = [11]
   \<and> map (\<lambda>e. mode_value (t_equivalents (l_total e)) ''car_km'')
         (logs (db (snd (logout mongo_spec sample_utils sample_request ledger_state)))) = [55]
   \<and> list_all (\<lambda>d. list_all (\<lambda>i. p_count i = 0) (p_items d))
         (co2_docs (db (snd (logout mongo_spec sample_utils sample_request ledger_state))))"
proof -
  have h: "sessions (db ledger_state) \<noteq> []"
    by (simp add: ledger_state_def ledger_store_def)
  have v: "sessions (db ledger_state) =
      [\<lparr>s_total_co2 = 6, s_equivalents = [''car_km'' \<mapsto> 30], s_exchanged_items = []\<rparr>,
       \<lparr>s_total_co2 = 5, s_equivalents = [''car_km'' \<mapsto> 25], s_exchanged_items = []\<rparr>]"
    "logs (db ledger_state) = []"
    by (simp_all add: ledger_state_def ledger_store_def)
  show ?thesis
    using h logout_archives_sessions [OF h, of "\<lambda>t. [''car_km'' \<mapsto> t * 5]" sample_request]
    by (auto simp: sample_utils_def v mode_value_def)
qed

text \<open>
  Claim C5: a logout with no Session Record in the ledger returns the redirect
  that deletes the cookie \<^verbatim>\<open>user_name\<close> and leaves the whole state as it was:
  no Logout Archive Entry is written, the persisted items are untouched and no
  Session Record is deleted. The first part is the handler's guard, for any
  implementation of the collaborators: a session count that is not positive
  skips the archival.
\<close>

theorem logout_without_sessions:
  "(snd (calculate_total u (get_all_sessions m (db st'))) \<le> 0 \<longrightarrow>
      logout m u q st' = (Inr (RedirectResponse ''/'' 303 [''user_name'']), st'))
   \<and> (sessions (db st) = [] \<longrightarrow>
      logout mongo_spec (utils_spec calc) q st
        = (Inr (RedirectResponse ''/'' 303 [''user_name'']), st))"
  by (simp add: logout_skip mongo_spec_simps utils_spec_simps spec_calculate_total_def)

theorem logout_without_sessions_witness:
  "sessions (db sample_state) = []
   \<and> snd (calculate_total sample_utils (get_all_sessions mongo_spec (db sample_state))) \<le> 0
   \<and> logout mongo_spec sample_utils sample_request sample_state
       = (Inr (RedirectResponse ''/'' 303 [''user_name'']), sample_state)"
proof -
  have h: "sessions (db sample_state) = []"
    by (simp add: sample_state_def sample_store_def)
  have g: "snd (calculate_total sample_utils (get_all_sessions mongo_spec (db sample_state))) \<le> 0"
    by (simp add: h sample_utils_def mongo_spec_simps utils_spec_simps spec_calculate_total_def)
  note a = logout_without_sessions [where m = mongo_spec and u = sample_utils
      and st' = sample_state and q = sample_request, THEN conjunct1, THEN mp, OF g]
  note b = logout_without_sessions [where st = sample_state and q = sample_request
      and calc = "\<lambda>t. [''car_km'' \<mapsto> t * 5]", THEN conjunct2, THEN mp, OF h]
  show ?thesis
    using h g a b by (simp add: sample_utils_def)
qed

end
